theory Spec2Isabelle
  imports Main
begin

section \<open>Python values, exceptions and the runtime library\<close>

text \<open>
  The server (\<^verbatim>\<open>backend/server.py\<close>) handles untyped Python values in two places: the
  JSON payload of the Pendle API (\<^verbatim>\<open>response.json()\<close>) and the \<^verbatim>\<open>metadata\<close>
  dictionary of an agent result. Both are values of the following type. A \<^verbatim>\<open>dict\<close> is
  the list of its items; the type \<open>'f\<close> is the type of Python's \<^verbatim>\<open>float\<close> values
  (the doubles), which this development never computes with.
\<close>

datatype 'f pyval =
    PyNone
  | PyBool bool
  | PyInt int
  | PyFloat 'f
  | PyStr string
  | PyList "'f pyval list"
  | PyDict "(string \<times> 'f pyval) list"

fun type_name :: "'f pyval \<Rightarrow> string" where
  "type_name PyNone = ''NoneType''"
| "type_name (PyBool b) = ''bool''"
| "type_name (PyInt i) = ''int''"
| "type_name (PyFloat f) = ''float''"
| "type_name (PyStr s) = ''str''"
| "type_name (PyList xs) = ''list''"
| "type_name (PyDict d) = ''dict''"

text \<open>
  Exceptions. A \<open>pyerror\<close> is any exception other than FastAPI's \<^verbatim>\<open>HTTPException\<close>: its
  class, as far as the handlers of the server tell classes apart, and its text
  \<^verbatim>\<open>str(exc)\<close>. \<open>HTTPError\<close> is \<^verbatim>\<open>httpx.HTTPError\<close> with its subclasses (timeouts,
  connection errors, \<^verbatim>\<open>HTTPStatusError\<close> of \<^verbatim>\<open>raise_for_status\<close>); \<open>ValueError\<close>
  includes its subclasses \<^verbatim>\<open>json.JSONDecodeError\<close> and pydantic's
  \<^verbatim>\<open>ValidationError\<close>; \<open>OtherError\<close> is every other subclass of \<^verbatim>\<open>Exception\<close>.
  An \<open>exn\<close> is what a collaborator may raise and what a route handler may propagate:
  \<^verbatim>\<open>HTTPException(status_code, detail)\<close> or a \<open>pyerror\<close>.
\<close>

datatype error_class =
  HTTPError | ValueError | TypeError | KeyError | AttributeError | OverflowError | OtherError

datatype pyerror = PyError error_class string

datatype exn = HTTPException nat string | Raised pyerror

fun class_of :: "pyerror \<Rightarrow> error_class" where
  "class_of (PyError c m) = c"

fun str_exc :: "pyerror \<Rightarrow> string" where
  "str_exc (PyError c m) = m"

definition try_bind :: "'e + 'a \<Rightarrow> ('a \<Rightarrow> 'e + 'b) \<Rightarrow> 'e + 'b" where
  "try_bind r k = (case r of Inl e \<Rightarrow> Inl e | Inr x \<Rightarrow> k x)"

text \<open>
  The conversions of the Python runtime and of pydantic that the server calls and that
  are no code of this repository are parameters of the model:
  \<^item> \<open>float_of_int i\<close> is \<^verbatim>\<open>float(i)\<close> for an \<^verbatim>\<open>int\<close>; \<open>None\<close> is its
    \<^verbatim>\<open>OverflowError\<close>;
  \<^item> \<open>float_of_str s\<close> is \<^verbatim>\<open>float(s)\<close> for a \<^verbatim>\<open>str\<close>; \<open>Inl m\<close> is its
    \<^verbatim>\<open>ValueError\<close> with text \<open>m\<close>;
  \<^item> \<open>float_is_zero f\<close> says that the float \<open>f\<close> is falsy (\<^verbatim>\<open>f == 0.0\<close>);
  \<^item> \<open>int_of_float f\<close> is \<^verbatim>\<open>int(f)\<close> for a \<^verbatim>\<open>float\<close>, which raises on NaN and on
    the infinities;
  \<^item> \<open>int_of_str s\<close> is \<^verbatim>\<open>int(s)\<close> for a \<^verbatim>\<open>str\<close>; \<open>Inl m\<close> is its
    \<^verbatim>\<open>ValueError\<close> with text \<open>m\<close>;
  \<^item> \<open>validation_text fields\<close> is the text of the \<^verbatim>\<open>ValidationError\<close> that pydantic
    raises when the named fields of a \<^verbatim>\<open>VaultData\<close> are invalid.
\<close>

record 'f runtime =
  float_of_int :: "int \<Rightarrow> 'f option"
  float_of_str :: "string \<Rightarrow> string + 'f"
  float_is_zero :: "'f \<Rightarrow> bool"
  int_of_float :: "'f \<Rightarrow> pyerror + int"
  int_of_str :: "string \<Rightarrow> string + int"
  validation_text :: "string list \<Rightarrow> string"

definition quoted :: "string \<Rightarrow> string" where
  "quoted s = [CHR 0x27] @ s @ [CHR 0x27]"

text \<open>\<^verbatim>\<open>obj.get(key, default)\<close>: only a \<^verbatim>\<open>dict\<close> has the method.\<close>

definition py_get :: "'f pyval \<Rightarrow> string \<Rightarrow> 'f pyval \<Rightarrow> pyerror + 'f pyval" where
  "py_get obj key dflt =
     (case obj of
        PyDict d \<Rightarrow> Inr (case map_of d key of Some v \<Rightarrow> v | None \<Rightarrow> dflt)
      | _ \<Rightarrow> Inl (PyError AttributeError
                   (quoted (type_name obj) @ '' object has no attribute '' @ quoted ''get'')))"

text \<open>\<^verbatim>\<open>float(x)\<close>; a \<^verbatim>\<open>bool\<close> is an \<^verbatim>\<open>int\<close>.\<close>

definition py_float :: "'f runtime \<Rightarrow> 'f pyval \<Rightarrow> pyerror + 'f" where
  "py_float rt x =
     (case x of
        PyFloat f \<Rightarrow> Inr f
      | PyInt i \<Rightarrow>
          (case float_of_int rt i of
             Some f \<Rightarrow> Inr f
           | None \<Rightarrow> Inl (PyError OverflowError ''int too large to convert to float''))
      | PyBool b \<Rightarrow>
          (case float_of_int rt (if b then 1 else 0) of
             Some f \<Rightarrow> Inr f
           | None \<Rightarrow> Inl (PyError OverflowError ''int too large to convert to float''))
      | PyStr s \<Rightarrow>
          (case float_of_str rt s of
             Inr f \<Rightarrow> Inr f
           | Inl m \<Rightarrow> Inl (PyError ValueError m))
      | _ \<Rightarrow> Inl (PyError TypeError
                   (''float() argument must be a string or a real number, not ''
                    @ quoted (type_name x))))"

text \<open>
  The items a \<^verbatim>\<open>for\<close> loop draws from a value: the elements of a list, the keys of a
  dict, the characters of a string; nothing else here is iterable.
\<close>

definition py_iter :: "'f pyval \<Rightarrow> pyerror + 'f pyval list" where
  "py_iter x =
     (case x of
        PyList xs \<Rightarrow> Inr xs
      | PyDict d \<Rightarrow> Inr (map (\<lambda>kv. PyStr (fst kv)) d)
      | PyStr s \<Rightarrow> Inr (map (\<lambda>c. PyStr [c]) s)
      | _ \<Rightarrow> Inl (PyError TypeError (quoted (type_name x) @ '' object is not iterable'')))"

section \<open>The vault listing: \<^verbatim>\<open>GET /vaults\<close>\<close>

record 'f VaultData =
  address :: string
  name :: string
  symbol :: string
  expiry :: string
  chain_id :: int
  volume_24h :: 'f
  liquidity :: 'f
  implied_apy :: 'f
  underlying_apy :: 'f
  lp_apy :: 'f
  pt_price :: 'f
  yt_price :: 'f

record 'f VaultsResponse =
  success :: bool
  vaults :: "'f VaultData list"
  total :: nat
  error :: "string option"

text \<open>
  The constructor \<^verbatim>\<open>VaultData(...)\<close> validates its arguments (pydantic 2, as
  \<^verbatim>\<open>model_dump\<close> in the same file shows): a \<^verbatim>\<open>str\<close> field takes a \<^verbatim>\<open>str\<close> only and
  any other decoded JSON value is a \<^verbatim>\<open>ValidationError\<close>, which reports all invalid
  fields at once. \<^verbatim>\<open>chain_id\<close> is an \<^verbatim>\<open>int\<close> and the seven metrics are floats when
  the constructor is reached.
\<close>

definition invalid_str_fields :: "(string \<times> 'f pyval) list \<Rightarrow> string list" where
  "invalid_str_fields args =
     map fst (filter (\<lambda>kv. case snd kv of PyStr s \<Rightarrow> False | _ \<Rightarrow> True) args)"

definition new_VaultData ::
  "'f runtime \<Rightarrow> 'f pyval \<Rightarrow> 'f pyval \<Rightarrow> 'f pyval \<Rightarrow> 'f pyval \<Rightarrow> int \<Rightarrow>
   'f \<Rightarrow> 'f \<Rightarrow> 'f \<Rightarrow> 'f \<Rightarrow> 'f \<Rightarrow> 'f \<Rightarrow> 'f \<Rightarrow> pyerror + 'f VaultData" where
  "new_VaultData rt a n s e c v24 liq imp und lp pt yt =
     (case (a, n, s, e) of
        (PyStr a', PyStr n', PyStr s', PyStr e') \<Rightarrow>
          Inr \<lparr>address = a', name = n', symbol = s', expiry = e', chain_id = c,
               volume_24h = v24, liquidity = liq, implied_apy = imp, underlying_apy = und,
               lp_apy = lp, pt_price = pt, yt_price = yt\<rparr>
      | _ \<Rightarrow>
          Inl (PyError ValueError
                 (validation_text rt
                    (invalid_str_fields
                       [(''address'', a), (''name'', n), (''symbol'', s), (''expiry'', e)]))))"

text \<open>\<^verbatim>\<open>float(details.get(key, 0))\<close>\<close>

definition float_field :: "'f runtime \<Rightarrow> 'f pyval \<Rightarrow> string \<Rightarrow> pyerror + 'f" where
  "float_field rt details key = try_bind (py_get details key (PyInt 0)) (py_float rt)"

text \<open>
  The body of the inner \<^verbatim>\<open>try\<close> (lines 276 to 290), for one market: the arguments are
  evaluated from left to right, then the constructor validates them. The first exception
  ends the evaluation.
\<close>

definition vault_of_market :: "'f runtime \<Rightarrow> int \<Rightarrow> 'f pyval \<Rightarrow> pyerror + 'f VaultData" where
  "vault_of_market rt cid market =
     try_bind (py_get market ''details'' (PyDict [])) (\<lambda>details.
     try_bind (py_get market ''address'' (PyStr [])) (\<lambda>a.
     try_bind (py_get market ''name'' (PyStr ''Unknown'')) (\<lambda>n.
     try_bind (py_get market ''symbol'' (PyStr [])) (\<lambda>s.
     try_bind (py_get market ''expiry'' (PyStr [])) (\<lambda>e.
     try_bind (float_field rt details ''volume24h'') (\<lambda>v24.
     try_bind (float_field rt details ''liquidity'') (\<lambda>liq.
     try_bind (float_field rt details ''impliedApy'') (\<lambda>imp.
     try_bind (float_field rt details ''underlyingApy'') (\<lambda>und.
     try_bind (float_field rt details ''lpApy'') (\<lambda>lp.
     try_bind (float_field rt details ''ptPrice'') (\<lambda>pt.
     try_bind (float_field rt details ''ytPrice'') (\<lambda>yt.
     new_VaultData rt a n s e cid v24 liq imp und lp pt yt))))))))))))"

text \<open>\<^verbatim>\<open>except (ValueError, TypeError, KeyError)\<close>: the classes the inner handler catches.\<close>

definition caught_per_record :: "pyerror \<Rightarrow> bool" where
  "caught_per_record e =
     (class_of e = ValueError \<or> class_of e = TypeError \<or> class_of e = KeyError)"

text \<open>
  The \<^verbatim>\<open>for\<close> loop over the markets, with the list \<open>vs\<close> (\<^verbatim>\<open>vaults\<close> in the source) it appends to. A caught
  exception is logged and the loop continues; any other exception leaves the loop.
\<close>

fun vaults_loop ::
  "'f runtime \<Rightarrow> int \<Rightarrow> 'f pyval list \<Rightarrow> 'f VaultData list \<Rightarrow> pyerror + 'f VaultData list" where
  "vaults_loop rt cid [] vs = Inr vs"
| "vaults_loop rt cid (market # rest) vs =
     (case vault_of_market rt cid market of
        Inr vault \<Rightarrow> vaults_loop rt cid rest (vs @ [vault])
      | Inl e \<Rightarrow> if caught_per_record e then vaults_loop rt cid rest vs else Inl e)"

text \<open>
  The body of the outer \<^verbatim>\<open>try\<close>. Its first argument is the outcome of the three
  statements under \<^verbatim>\<open>async with\<close> (the GET with its 30 second timeout,
  \<^verbatim>\<open>raise_for_status()\<close>, \<^verbatim>\<open>response.json()\<close>): the exception raised there or the
  decoded payload.
\<close>

definition vaults_body ::
  "'f runtime \<Rightarrow> pyerror + 'f pyval \<Rightarrow> int \<Rightarrow> pyerror + 'f VaultsResponse" where
  "vaults_body rt fetched cid =
     try_bind fetched (\<lambda>data.
     try_bind (py_get data ''markets'' (PyList [])) (\<lambda>markets.
     try_bind (py_iter markets) (\<lambda>items.
     try_bind (vaults_loop rt cid items []) (\<lambda>vs.
     Inr \<lparr>success = True, vaults = vs, total = length vs, error = None\<rparr>))))"

text \<open>
  The route handler: \<^verbatim>\<open>except httpx.HTTPError\<close> first, then \<^verbatim>\<open>except Exception\<close>.
  The result is \<open>Inr\<close> of the response the handler returns, \<open>Inl\<close> of an exception it
  lets through.
\<close>

definition get_pendle_vaults ::
  "'f runtime \<Rightarrow> pyerror + 'f pyval \<Rightarrow> int \<Rightarrow> exn + 'f VaultsResponse" where
  "get_pendle_vaults rt fetched cid =
     (case vaults_body rt fetched cid of
        Inr r \<Rightarrow> Inr r
      | Inl exc \<Rightarrow>
          if class_of exc = HTTPError
          then Inr \<lparr>success = False, vaults = [], total = 0,
                    error = Some (''Failed to fetch vaults: '' @ str_exc exc)\<rparr>
          else Inr \<lparr>success = False, vaults = [], total = 0, error = Some (str_exc exc)\<rparr>)"

section \<open>The agent registry\<close>

text \<open>
  Modelled from the spec: the classes \<^verbatim>\<open>AgentConfig\<close>, \<^verbatim>\<open>ChatAgent\<close> and
  \<^verbatim>\<open>SearchAgent\<close> and the result type of \<^verbatim>\<open>execute\<close> are imported from
  \<^verbatim>\<open>ai_agents.agents\<close>, which is not among the sources. The result is the spec's
  \<^verbatim>\<open>AgentResult\<close>, of which the server reads the four attributes below; the
  \<^verbatim>\<open>metadata\<close> is a mapping from strings to arbitrary values.
\<close>

record 'f AgentResult =
  success :: bool
  content :: string
  metadata :: "(string \<times> 'f pyval) list"
  error :: "string option"

datatype agent_kind = SearchAgent | ChatAgent

text \<open>
  The collaborator, as a parameter: the constructor of an agent from the configuration,
  which may raise; \<^verbatim>\<open>execute(prompt)\<close> and \<^verbatim>\<open>execute(prompt, use_tools=...)\<close>, which
  return a result or raise and may change the agent's internal state \<open>'a\<close> (the third
  argument is \<open>None\<close> when the call leaves \<^verbatim>\<open>use_tools\<close> to its default); and
  \<^verbatim>\<open>get_capabilities()\<close>.
\<close>

record ('a, 'c, 'f) agents_api =
  new_agent :: "agent_kind \<Rightarrow> 'c \<Rightarrow> exn + 'a"
  execute :: "'a \<Rightarrow> string \<Rightarrow> bool option \<Rightarrow> (exn + 'f AgentResult) \<times> 'a"
  get_capabilities :: "'a \<Rightarrow> exn + string list"

text \<open>
  An agent object: its identity (objects are compared by identity; the \<open>n\<close>-th
  constructor call of the process makes the object \<open>n\<close>) and its internal state.
\<close>

record 'a agent =
  ident :: nat
  internal :: 'a

text \<open>
  \<^verbatim>\<open>request.app.state\<close>: the attributes \<^verbatim>\<open>agent_cache\<close>, a dict in insertion order,
  and \<^verbatim>\<open>agent_config\<close>; each is \<open>None\<close> while the attribute is not set, as before
  \<^verbatim>\<open>lifespan\<close> has run. The field \<open>constructed\<close> is a history variable: every call of
  an agent constructor so far, with the configuration it was given.
\<close>

record ('a, 'c) app_state =
  agent_cache :: "(string \<times> 'a agent) list option"
  agent_config :: "'c option"
  constructed :: "(agent_kind \<times> 'c) list"

text \<open>The state that \<^verbatim>\<open>lifespan\<close> sets up before the first request.\<close>

definition lifespan_state :: "'c \<Rightarrow> ('a, 'c) app_state" where
  "lifespan_state cfg = \<lparr>agent_cache = Some [], agent_config = Some cfg, constructed = []\<rparr>"

definition get_agent_cache ::
  "('a, 'c) app_state \<Rightarrow> (string \<times> 'a agent) list \<times> ('a, 'c) app_state" where
  "get_agent_cache s =
     (case agent_cache s of
        None \<Rightarrow> ([], s\<lparr>agent_cache := Some []\<rparr>)
      | Some cache \<Rightarrow> (cache, s))"

text \<open>
  \<^verbatim>\<open>cache[agent_type] = SearchAgent(config)\<close> and its sibling, for a key that the cache
  does not hold: the constructor runs first; when it raises, nothing is stored.
\<close>

definition create_agent ::
  "('a, 'c, 'f) agents_api \<Rightarrow> ('a, 'c) app_state \<Rightarrow> (string \<times> 'a agent) list \<Rightarrow> string \<Rightarrow>
   agent_kind \<Rightarrow> 'c \<Rightarrow> (exn + 'a agent) \<times> ('a, 'c) app_state" where
  "create_agent api s cache agent_type kind config =
     (let s' = s\<lparr>constructed := constructed s @ [(kind, config)]\<rparr>
      in case new_agent api kind config of
           Inl e \<Rightarrow> (Inl e, s')
         | Inr a \<Rightarrow>
             (let ag = \<lparr>ident = length (constructed s), internal = a\<rparr>
              in (Inr ag, s'\<lparr>agent_cache := Some (cache @ [(agent_type, ag)])\<rparr>)))"

text \<open>
  \<^verbatim>\<open>_get_or_create_agent\<close>: a cached agent is returned at once. Otherwise line 109 reads
  \<^verbatim>\<open>request.app.state.agent_config\<close> before the type is looked at, and an attribute
  that is not set raises \<^verbatim>\<open>AttributeError\<close> there.
\<close>

definition get_or_create_agent ::
  "('a, 'c, 'f) agents_api \<Rightarrow> ('a, 'c) app_state \<Rightarrow> string \<Rightarrow>
   (exn + 'a agent) \<times> ('a, 'c) app_state" where
  "get_or_create_agent api s agent_type =
     (case get_agent_cache s of
        (cache, s1) \<Rightarrow>
          (case map_of cache agent_type of
             Some ag \<Rightarrow> (Inr ag, s1)
           | None \<Rightarrow>
               (case agent_config s1 of
                  None \<Rightarrow>
                    (Inl (Raised (PyError AttributeError
                            (quoted ''State'' @ '' object has no attribute ''
                             @ quoted ''agent_config''))), s1)
                | Some config \<Rightarrow>
                    if agent_type = ''search''
                    then create_agent api s1 cache agent_type SearchAgent config
                    else if agent_type = ''chat''
                    then create_agent api s1 cache agent_type ChatAgent config
                    else (Inl (HTTPException 400
                                 (''Unknown agent type '' @ quoted agent_type)), s1))))"

text \<open>\<open>n\<close> calls in sequence for the same type: the outcomes in order, and the last state.\<close>

fun get_or_create_many ::
  "('a, 'c, 'f) agents_api \<Rightarrow> ('a, 'c) app_state \<Rightarrow> string \<Rightarrow> nat \<Rightarrow>
   (exn + 'a agent) list \<times> ('a, 'c) app_state" where
  "get_or_create_many api s agent_type 0 = ([], s)"
| "get_or_create_many api s agent_type (Suc n) =
     (case get_or_create_agent api s agent_type of
        (r, s1) \<Rightarrow>
          (case get_or_create_many api s1 agent_type n of
             (rs, s2) \<Rightarrow> (r # rs, s2)))"

text \<open>
  \<^verbatim>\<open>execute\<close> works on the object itself: its new internal state is seen through every
  entry of the cache that holds this object.
\<close>

definition update_agent :: "('a, 'c) app_state \<Rightarrow> 'a agent \<Rightarrow> 'a \<Rightarrow> ('a, 'c) app_state" where
  "update_agent s ag a' =
     s\<lparr>agent_cache :=
         map_option
           (map (\<lambda>kv. if ident (snd kv) = ident ag then (fst kv, (snd kv)\<lparr>internal := a'\<rparr>) else kv))
           (agent_cache s)\<rparr>"

section \<open>The chat endpoint: \<^verbatim>\<open>POST /chat\<close>\<close>

record 'f ChatRequest =
  message :: string
  agent_type :: string
  request_context :: "(string \<times> 'f pyval) list option"

record 'f ChatResponse =
  success :: bool
  response :: string
  agent_type :: string
  capabilities :: "string list"
  metadata :: "(string \<times> 'f pyval) list"
  error :: "string option"

text \<open>
  The two \<^verbatim>\<open>except\<close> clauses of the handler: an \<^verbatim>\<open>HTTPException\<close> is raised again,
  any other exception becomes a response (\<^verbatim>\<open>metadata\<close> takes its default, the empty
  dict).
\<close>

definition chat_except :: "'f ChatRequest \<Rightarrow> exn \<Rightarrow> exn + 'f ChatResponse" where
  "chat_except chat_request e =
     (case e of
        HTTPException status detail \<Rightarrow> Inl (HTTPException status detail)
      | Raised exc \<Rightarrow>
          Inr \<lparr>ChatResponse.success = False, response = [],
               agent_type = ChatRequest.agent_type chat_request, capabilities = [],
               metadata = [], error = Some (str_exc exc)\<rparr>)"

definition chat_with_agent ::
  "('a, 'c, 'f) agents_api \<Rightarrow> ('a, 'c) app_state \<Rightarrow> 'f ChatRequest \<Rightarrow>
   (exn + 'f ChatResponse) \<times> ('a, 'c) app_state" where
  "chat_with_agent api s chat_request =
     (case get_or_create_agent api s (ChatRequest.agent_type chat_request) of
        (Inl e, s1) \<Rightarrow> (chat_except chat_request e, s1)
      | (Inr ag, s1) \<Rightarrow>
          (case execute api (internal ag) (message chat_request) None of
             (outcome, a') \<Rightarrow>
               (let s2 = update_agent s1 ag a'
                in case outcome of
                     Inl e \<Rightarrow> (chat_except chat_request e, s2)
                   | Inr res \<Rightarrow>
                       (case get_capabilities api a' of
                          Inl e \<Rightarrow> (chat_except chat_request e, s2)
                        | Inr caps \<Rightarrow>
                            (Inr \<lparr>ChatResponse.success = AgentResult.success res,
                                  response = content res,
                                  agent_type = ChatRequest.agent_type chat_request,
                                  capabilities = caps,
                                  metadata = AgentResult.metadata res,
                                  error = AgentResult.error res\<rparr>, s2)))))"

section \<open>The search endpoint: \<^verbatim>\<open>POST /search\<close>\<close>

record SearchRequest =
  query :: string
  max_results :: int

record 'f SearchResponse =
  success :: bool
  query :: string
  summary :: string
  search_results :: "(string \<times> 'f pyval) list option"
  sources_count :: int
  error :: "string option"

text \<open>The truth value of a Python value, as \<^verbatim>\<open>or\<close> tests it.\<close>

definition truthy :: "'f runtime \<Rightarrow> 'f pyval \<Rightarrow> bool" where
  "truthy rt x =
     (case x of
        PyNone \<Rightarrow> False
      | PyBool b \<Rightarrow> b
      | PyInt i \<Rightarrow> i \<noteq> 0
      | PyFloat f \<Rightarrow> \<not> float_is_zero rt f
      | PyStr s \<Rightarrow> s \<noteq> []
      | PyList xs \<Rightarrow> xs \<noteq> []
      | PyDict d \<Rightarrow> d \<noteq> [])"

text \<open>\<^verbatim>\<open>int(x)\<close>\<close>

definition py_int :: "'f runtime \<Rightarrow> 'f pyval \<Rightarrow> pyerror + int" where
  "py_int rt x =
     (case x of
        PyInt i \<Rightarrow> Inr i
      | PyBool b \<Rightarrow> Inr (if b then 1 else 0)
      | PyFloat f \<Rightarrow> int_of_float rt f
      | PyStr s \<Rightarrow>
          (case int_of_str rt s of
             Inr i \<Rightarrow> Inr i
           | Inl m \<Rightarrow> Inl (PyError ValueError m))
      | _ \<Rightarrow> Inl (PyError TypeError
                   (''int() argument must be a string, a bytes-like object or a real number, not ''
                    @ quoted (type_name x))))"

text \<open>\<^verbatim>\<open>d.get(key, default)\<close> on a dict\<close>

definition dict_get :: "(string \<times> 'v) list \<Rightarrow> string \<Rightarrow> 'v \<Rightarrow> 'v" where
  "dict_get d key dflt = (case map_of d key of Some v \<Rightarrow> v | None \<Rightarrow> dflt)"

text \<open>
  \<^verbatim>\<open>metadata.get("tool_run_count", metadata.get("tools_used", 0)) or 0\<close>: the value
  that \<^verbatim>\<open>int\<close> is then applied to.
\<close>

definition sources_value :: "'f runtime \<Rightarrow> (string \<times> 'f pyval) list \<Rightarrow> 'f pyval" where
  "sources_value rt md =
     (let v = dict_get md ''tool_run_count'' (dict_get md ''tools_used'' (PyInt 0))
      in if truthy rt v then v else PyInt 0)"

definition search_prompt :: "SearchRequest \<Rightarrow> string" where
  "search_prompt search_request =
     ''Search for information about: '' @ SearchRequest.query search_request @ ''. ''
     @ ''Provide a comprehensive summary with key findings.''"

definition search_except :: "SearchRequest \<Rightarrow> exn \<Rightarrow> exn + 'f SearchResponse" where
  "search_except search_request e =
     (case e of
        HTTPException status detail \<Rightarrow> Inl (HTTPException status detail)
      | Raised exc \<Rightarrow>
          Inr \<lparr>SearchResponse.success = False, query = SearchRequest.query search_request,
               summary = [], search_results = None, sources_count = 0,
               error = Some (str_exc exc)\<rparr>)"

text \<open>
  What the handler does with the result of \<^verbatim>\<open>execute\<close> (lines 212 to 228);
  \<^verbatim>\<open>result.metadata or {}\<close> is the metadata itself, an empty dict being falsy.
\<close>

definition search_result ::
  "'f runtime \<Rightarrow> SearchRequest \<Rightarrow> 'f AgentResult \<Rightarrow> exn + 'f SearchResponse" where
  "search_result rt search_request res =
     (if AgentResult.success res
      then (case py_int rt (sources_value rt (AgentResult.metadata res)) of
              Inl exc \<Rightarrow> search_except search_request (Raised exc)
            | Inr n \<Rightarrow>
                Inr \<lparr>SearchResponse.success = True,
                     query = SearchRequest.query search_request,
                     summary = content res,
                     search_results = Some (AgentResult.metadata res),
                     sources_count = n, error = None\<rparr>)
      else Inr \<lparr>SearchResponse.success = False,
                query = SearchRequest.query search_request,
                summary = [], search_results = None, sources_count = 0,
                error = AgentResult.error res\<rparr>)"

definition search_and_summarize ::
  "'f runtime \<Rightarrow> ('a, 'c, 'f) agents_api \<Rightarrow> ('a, 'c) app_state \<Rightarrow> SearchRequest \<Rightarrow>
   (exn + 'f SearchResponse) \<times> ('a, 'c) app_state" where
  "search_and_summarize rt api s search_request =
     (case get_or_create_agent api s ''search'' of
        (Inl e, s1) \<Rightarrow> (search_except search_request e, s1)
      | (Inr search_agent, s1) \<Rightarrow>
          (case execute api (internal search_agent) (search_prompt search_request) (Some True) of
             (outcome, a') \<Rightarrow>
               (let s2 = update_agent s1 search_agent a'
                in case outcome of
                     Inl e \<Rightarrow> (search_except search_request e, s2)
                   | Inr res \<Rightarrow> (search_result rt search_request res, s2))))"

section \<open>Instances for evaluating examples\<close>

text \<open>
  A small instance of the runtime parameters, for evaluating the handlers on concrete
  payloads: a float with an integer value of magnitude up to \<open>2 ^ 53\<close> stands for itself
  (these are doubles, and \<^verbatim>\<open>float\<close> and \<^verbatim>\<open>int\<close> convert them exactly), and no text is
  taken for a number. The examples apply it to \<^verbatim>\<open>float(0)\<close>, to small integers and to
  the texts \<^verbatim>\<open>not-a-number\<close> and \<^verbatim>\<open>n/a\<close> only, where it agrees with CPython.
\<close>

definition example_runtime :: "int runtime" where
  "example_runtime =
     \<lparr>float_of_int = (\<lambda>i. if \<bar>i\<bar> \<le> 2 ^ 53 then Some i else None),
      float_of_str = (\<lambda>s. Inl (''could not convert string to float: '' @ quoted s)),
      float_is_zero = (\<lambda>f. f = 0),
      int_of_float = (\<lambda>f. Inr f),
      int_of_str = (\<lambda>s. Inl (''invalid literal for int() with base 10: '' @ quoted s)),
      validation_text = (\<lambda>fields. ''validation error for VaultData'')\<rparr>"

text \<open>
  The stub agents of the spec's scenarios: the constructor succeeds, \<^verbatim>\<open>execute\<close> always
  has the given outcome, \<^verbatim>\<open>get_capabilities\<close> returns the given list. The internal
  state of a stub counts its \<^verbatim>\<open>execute\<close> calls; the configuration is a name.
\<close>

definition stub_api ::
  "exn + 'f AgentResult \<Rightarrow> string list \<Rightarrow> (nat, string, 'f) agents_api" where
  "stub_api outcome caps =
     \<lparr>new_agent = (\<lambda>kind config. Inr 0),
      execute = (\<lambda>a prompt use_tools. (outcome, Suc a)),
      get_capabilities = (\<lambda>a. Inr caps)\<rparr>"

text \<open>
  Example markets: a well-formed one with the vault it is coerced to on chain 1, the
  market of the spec's scenario whose \<^verbatim>\<open>liquidity\<close> is the text \<^verbatim>\<open>not-a-number\<close>, and
  a market whose \<^verbatim>\<open>details\<close> is JSON \<^verbatim>\<open>null\<close>.
\<close>

definition market_ok :: "int pyval" where
  "market_ok =
     PyDict [(''address'', PyStr ''0xabc''), (''name'', PyStr ''PT-stETH''),
             (''symbol'', PyStr ''PT''), (''expiry'', PyStr ''2026-12-31''),
             (''details'', PyDict [(''liquidity'', PyInt 1000)])]"

definition vault_ok :: "int VaultData" where
  "vault_ok =
     \<lparr>address = ''0xabc'', name = ''PT-stETH'', symbol = ''PT'', expiry = ''2026-12-31'',
      chain_id = 1, volume_24h = 0, liquidity = 1000, implied_apy = 0, underlying_apy = 0,
      lp_apy = 0, pt_price = 0, yt_price = 0\<rparr>"

definition market_bad_liquidity :: "int pyval" where
  "market_bad_liquidity =
     PyDict [(''address'', PyStr ''0xdef''),
             (''details'', PyDict [(''liquidity'', PyStr ''not-a-number'')])]"

definition market_null_details :: "int pyval" where
  "market_null_details = PyDict [(''address'', PyStr ''0xdef''), (''details'', PyNone)]"

text \<open>
  Example results of \<^verbatim>\<open>execute\<close>: the success of the spec's chat scenario, a
  structured failure that carries content and an error, one that carries content and no
  error, and a success with the given metadata.
\<close>

definition hello_result :: "int AgentResult" where
  "hello_result =
     \<lparr>AgentResult.success = True, content = ''hello'', metadata = [], error = None\<rparr>"

definition partial_failure :: "int AgentResult" where
  "partial_failure =
     \<lparr>AgentResult.success = False, content = ''partial answer'', metadata = [],
      error = Some ''rate limit exceeded''\<rparr>"

definition unexplained_failure :: "int AgentResult" where
  "unexplained_failure =
     \<lparr>AgentResult.success = False, content = ''partial answer'', metadata = [],
      error = None\<rparr>"

definition counted_result :: "(string \<times> int pyval) list \<Rightarrow> int AgentResult" where
  "counted_result md =
     \<lparr>AgentResult.success = True, content = ''summary'', metadata = md, error = None\<rparr>"

section \<open>Notions the properties are stated with\<close>

text \<open>
  The cache holds recognized agent types only. \<^verbatim>\<open>lifespan\<close> establishes this and the
  operations on the cache keep it.
\<close>

definition cache_recognized :: "('a, 'c) app_state \<Rightarrow> bool" where
  "cache_recognized s =
     list_all (\<lambda>kv. fst kv = ''search'' \<or> fst kv = ''chat'') (fst (get_agent_cache s))"

text \<open>
  The spec's rule for the value behind \<^verbatim>\<open>sources_count\<close>, in its own words:
  \<^verbatim>\<open>metadata["tool_run_count"]\<close> if present, else \<^verbatim>\<open>metadata["tools_used"]\<close> if
  present; \<open>None\<close> when neither key is present.
\<close>

definition first_present :: "(string \<times> 'v) list \<Rightarrow> 'v option" where
  "first_present md =
     (case map_of md ''tool_run_count'' of
        Some v \<Rightarrow> Some v
      | None \<Rightarrow> map_of md ''tools_used'')"

text \<open>
  The spec's surviving records: the vaults of the markets whose coercion succeeds, in
  input order.
\<close>

fun surviving_vaults :: "'f runtime \<Rightarrow> int \<Rightarrow> 'f pyval list \<Rightarrow> 'f VaultData list" where
  "surviving_vaults rt cid [] = []"
| "surviving_vaults rt cid (market # rest) =
     (case vault_of_market rt cid market of
        Inr vault \<Rightarrow> vault # surviving_vaults rt cid rest
      | Inl e \<Rightarrow> surviving_vaults rt cid rest)"

section \<open>Properties of the vault listing\<close>

lemma try_bind_Inr_iff: "try_bind r k = Inr y \<longleftrightarrow> (\<exists>x. r = Inr x \<and> k x = Inr y)"
  by (cases r) (simp_all add: try_bind_def)

lemmas vaults_eval =
  get_pendle_vaults_def vaults_body_def try_bind_def py_get_def py_iter_def vault_of_market_def
  float_field_def py_float_def new_VaultData_def caught_per_record_def example_runtime_def
  quoted_def invalid_str_fields_def

lemma new_VaultData_chain_id:
  "new_VaultData rt a n s e c v24 liq imp und lp pt yt = Inr v \<Longrightarrow> chain_id v = c"
  by (auto simp: new_VaultData_def split: pyval.splits)

lemma vault_of_market_chain_id:
  "vault_of_market rt cid market = Inr v \<Longrightarrow> chain_id v = cid"
  unfolding vault_of_market_def try_bind_Inr_iff
  by (blast dest: new_VaultData_chain_id)

lemma vaults_loop_chain_id:
  "vaults_loop rt cid ms acc = Inr vs \<Longrightarrow> \<forall>v\<in>set acc. chain_id v = cid \<Longrightarrow>
   \<forall>v\<in>set vs. chain_id v = cid"
proof (induction ms arbitrary: acc)
  case Nil
  then show ?case by simp
next
  case (Cons m ms)
  show ?case
  proof (cases "vault_of_market rt cid m")
    case (Inl e)
    with Cons.prems(1) have "vaults_loop rt cid ms acc = Inr vs"
      by (simp split: if_splits)
    from Cons.IH[OF this Cons.prems(2)] show ?thesis .
  next
    case (Inr v)
    with Cons.prems(1) have run: "vaults_loop rt cid ms (acc @ [v]) = Inr vs" by simp
    from Inr have "chain_id v = cid" by (rule vault_of_market_chain_id)
    with Cons.prems(2) have "\<forall>w\<in>set (acc @ [v]). chain_id w = cid" by simp
    from Cons.IH[OF run this] show ?thesis .
  qed
qed

lemma vaults_body_Inr:
  "vaults_body rt fetched cid = Inr r \<Longrightarrow>
   \<exists>data markets items vs. fetched = Inr data \<and> py_get data ''markets'' (PyList []) = Inr markets
     \<and> py_iter markets = Inr items \<and> vaults_loop rt cid items [] = Inr vs
     \<and> r = \<lparr>VaultsResponse.success = True, vaults = vs, total = length vs, error = None\<rparr>"
  unfolding vaults_body_def try_bind_Inr_iff by auto

text \<open>
  C10. Whatever the provider answered (an exception or any payload), the handler returns a
  response, and every vault in it carries the \<^verbatim>\<open>chain_id\<close> of the request: the field is
  set from the request parameter and the payload has no part in it.
\<close>

theorem vaults_chain_id_is_request_chain_id:
  "\<exists>r. get_pendle_vaults rt fetched cid = Inr r \<and> (\<forall>v\<in>set (vaults r). chain_id v = cid)"
proof (cases "vaults_body rt fetched cid")
  case (Inl exc)
  then show ?thesis by (simp add: get_pendle_vaults_def)
next
  case (Inr r)
  from vaults_body_Inr[OF Inr] obtain items vs where
    loop: "vaults_loop rt cid items [] = Inr vs" and r: "vaults r = vs" by auto
  from vaults_loop_chain_id[OF loop] have "\<forall>v\<in>set vs. chain_id v = cid" by simp
  with Inr r show ?thesis by (simp add: get_pendle_vaults_def)
qed

text \<open>
  The provider reports a market with \<^verbatim>\<open>chainId\<close> 42; the request is for chain 1, and so
  is the vault.
\<close>

theorem vaults_chain_id_is_request_chain_id_witness:
  "\<exists>r. get_pendle_vaults example_runtime
         (Inr (PyDict [(''markets'',
            PyList [PyDict [(''address'', PyStr ''0xabc''), (''chainId'', PyInt 42)]])])) 1
       = Inr r
     \<and> vaults r =
         [\<lparr>address = ''0xabc'', name = ''Unknown'', symbol = [], expiry = [],
            chain_id = 1, volume_24h = 0, liquidity = 0, implied_apy = 0,
            underlying_apy = 0, lp_apy = 0, pt_price = 0, yt_price = 0\<rparr>]
     \<and> (\<forall>v\<in>set (vaults r). chain_id v = 1)"
  using vaults_chain_id_is_request_chain_id [of example_runtime
     "Inr (PyDict [(''markets'',
        PyList [PyDict [(''address'', PyStr ''0xabc''), (''chainId'', PyInt 42)]])])" 1]
  by (simp add: vaults_eval)

lemmas examples_eval = market_ok_def vault_ok_def market_bad_liquidity_def market_null_details_def

lemma vaults_loop_drop:
  "vault_of_market rt cid m = Inl e \<Longrightarrow> caught_per_record e \<Longrightarrow>
   vaults_loop rt cid (xs @ m # ys) acc = vaults_loop rt cid (xs @ ys) acc"
proof (induction xs arbitrary: acc)
  case Nil
  then show ?case by simp
next
  case (Cons x xs)
  then show ?case by (simp split: sum.splits)
qed

lemma vaults_loop_surviving:
  "list_all (\<lambda>m. case vault_of_market rt cid m of Inl e \<Rightarrow> caught_per_record e | Inr v \<Rightarrow> True) ms
   \<Longrightarrow> vaults_loop rt cid ms acc = Inr (acc @ surviving_vaults rt cid ms)"
  by (induction ms arbitrary: acc) (auto split: sum.splits)

lemma new_VaultData_fields:
  "new_VaultData rt a n s e c v24 liq imp und lp pt yt = Inr v \<Longrightarrow>
   volume_24h v = v24 \<and> liquidity v = liq \<and> implied_apy v = imp \<and> underlying_apy v = und
   \<and> lp_apy v = lp \<and> pt_price v = pt \<and> yt_price v = yt"
  by (auto simp: new_VaultData_def split: pyval.splits)

lemma vault_of_market_fields:
  assumes "vault_of_market rt cid market = Inr v"
  shows "\<exists>details. py_get market ''details'' (PyDict []) = Inr details
     \<and> float_field rt details ''volume24h'' = Inr (volume_24h v)
     \<and> float_field rt details ''liquidity'' = Inr (liquidity v)
     \<and> float_field rt details ''impliedApy'' = Inr (implied_apy v)
     \<and> float_field rt details ''underlyingApy'' = Inr (underlying_apy v)
     \<and> float_field rt details ''lpApy'' = Inr (lp_apy v)
     \<and> float_field rt details ''ptPrice'' = Inr (pt_price v)
     \<and> float_field rt details ''ytPrice'' = Inr (yt_price v)"
proof -
  from assms obtain details a n s e v24 liq imp und lp pt yt where
    d: "py_get market ''details'' (PyDict []) = Inr details" and
    f: "float_field rt details ''volume24h'' = Inr v24"
       "float_field rt details ''liquidity'' = Inr liq"
       "float_field rt details ''impliedApy'' = Inr imp"
       "float_field rt details ''underlyingApy'' = Inr und"
       "float_field rt details ''lpApy'' = Inr lp"
       "float_field rt details ''ptPrice'' = Inr pt"
       "float_field rt details ''ytPrice'' = Inr yt" and
    n: "new_VaultData rt a n s e cid v24 liq imp und lp pt yt = Inr v"
    unfolding vault_of_market_def try_bind_Inr_iff by blast
  from new_VaultData_fields[OF n] d f show ?thesis by simp
qed

lemma float_field_absent:
  "map_of d key = None \<Longrightarrow> float_of_int rt 0 = Some zero \<Longrightarrow>
   float_field rt (PyDict d) key = Inr zero"
  by (simp add: float_field_def py_get_def py_float_def try_bind_def)

lemma float_field_present:
  "map_of d key = Some x \<Longrightarrow> float_field rt (PyDict d) key = py_float rt x"
  by (simp add: float_field_def py_get_def try_bind_def)

lemma get_pendle_vaults_markets:
  "map_of p ''markets'' = Some (PyList ms) \<Longrightarrow>
   get_pendle_vaults rt (Inr (PyDict p)) cid =
     (case vaults_loop rt cid ms [] of
        Inr vs \<Rightarrow> Inr \<lparr>VaultsResponse.success = True, vaults = vs, total = length vs, error = None\<rparr>
      | Inl exc \<Rightarrow>
          Inr \<lparr>VaultsResponse.success = False, vaults = [], total = 0,
               error = Some (if class_of exc = HTTPError
                             then ''Failed to fetch vaults: '' @ str_exc exc else str_exc exc)\<rparr>)"
  by (simp add: get_pendle_vaults_def vaults_body_def py_get_def py_iter_def try_bind_def
      split: sum.splits)

lemma get_pendle_vaults_surviving:
  assumes "map_of p ''markets'' = Some (PyList ms)"
    and "list_all (\<lambda>m. case vault_of_market rt cid m of
                          Inl e \<Rightarrow> caught_per_record e | Inr v \<Rightarrow> True) ms"
  shows "get_pendle_vaults rt (Inr (PyDict p)) cid
     = Inr \<lparr>VaultsResponse.success = True, vaults = surviving_vaults rt cid ms,
            total = length (surviving_vaults rt cid ms), error = None\<rparr>"
  using vaults_loop_surviving[OF assms(2), of "[]"]
  by (simp add: get_pendle_vaults_markets[OF assms(1)])

text \<open>
  C2. The claim: with \<open>K\<close> records that coerce and \<open>M\<close> records whose coercion throws,
  the listing succeeds with exactly the \<open>K\<close> survivors. The inner handler catches
  \<^verbatim>\<open>ValueError\<close>, \<^verbatim>\<open>TypeError\<close> and \<^verbatim>\<open>KeyError\<close> only (for these the listing is the survivors, lemma
  \<open>get_pendle_vaults_surviving\<close>). A record whose \<^verbatim>\<open>details\<close> is
  \<^verbatim>\<open>null\<close> throws \<^verbatim>\<open>AttributeError\<close> in its coercion, which leaves the loop: the
  listing of a well-formed market and such a record is no partial result with
  \<^verbatim>\<open>total == 1\<close> but the failure response, and the well-formed vault is lost.
\<close>

theorem null_details_aborts_listing:
  "get_pendle_vaults example_runtime
     (Inr (PyDict [(''markets'', PyList [market_ok, market_null_details])])) 1
   = Inr \<lparr>VaultsResponse.success = False, vaults = [], total = 0,
          error = Some (quoted ''NoneType'' @ '' object has no attribute '' @ quoted ''get'')\<rparr>
   \<and> vault_of_market example_runtime 1 market_ok = Inr vault_ok"
  by (simp add: vaults_eval examples_eval)

text \<open>
  C7, as the code has it. With \<open>zero\<close> the float \<^verbatim>\<open>float(0)\<close>: (1) in every vault that
  a market is coerced to, each of the seven metrics that the market's \<^verbatim>\<open>details\<close> omits
  is \<open>zero\<close>; (2) a metric that is present with a value \<^verbatim>\<open>float\<close> rejects is never
  replaced by a default: the coercion of the market raises and yields no vault; (3) a
  market whose coercion raises an exception of a caught class is dropped entirely: the
  response is the response to the payload without that market.
\<close>

theorem numeric_fields_default_or_record_dropped:
  assumes zero: "float_of_int rt 0 = Some zero"
  shows
    "(vault_of_market rt cid market = Inr v \<and> py_get market ''details'' (PyDict []) = Inr (PyDict d)
        \<longrightarrow> (map_of d ''volume24h'' = None \<longrightarrow> volume_24h v = zero)
          \<and> (map_of d ''liquidity'' = None \<longrightarrow> liquidity v = zero)
          \<and> (map_of d ''impliedApy'' = None \<longrightarrow> implied_apy v = zero)
          \<and> (map_of d ''underlyingApy'' = None \<longrightarrow> underlying_apy v = zero)
          \<and> (map_of d ''lpApy'' = None \<longrightarrow> lp_apy v = zero)
          \<and> (map_of d ''ptPrice'' = None \<longrightarrow> pt_price v = zero)
          \<and> (map_of d ''ytPrice'' = None \<longrightarrow> yt_price v = zero))
     \<and> (py_get market' ''details'' (PyDict []) = Inr (PyDict d')
          \<and> key \<in> set [''volume24h'', ''liquidity'', ''impliedApy'', ''underlyingApy'',
                         ''lpApy'', ''ptPrice'', ''ytPrice'']
          \<and> map_of d' key = Some x \<and> py_float rt x = Inl e
        \<longrightarrow> (\<exists>e'. vault_of_market rt cid market' = Inl e'))
     \<and> (vault_of_market rt cid bad = Inl exc \<and> caught_per_record exc
          \<and> map_of p ''markets'' = Some (PyList (xs @ bad # ys))
          \<and> map_of p' ''markets'' = Some (PyList (xs @ ys))
        \<longrightarrow> get_pendle_vaults rt (Inr (PyDict p)) cid = get_pendle_vaults rt (Inr (PyDict p')) cid)"
proof (intro conjI impI)
  assume a: "vault_of_market rt cid market = Inr v \<and>
    py_get market ''details'' (PyDict []) = Inr (PyDict d)"
  from vault_of_market_fields[of rt cid market v] a
  have f: "float_field rt (PyDict d) ''volume24h'' = Inr (volume_24h v)"
       "float_field rt (PyDict d) ''liquidity'' = Inr (liquidity v)"
       "float_field rt (PyDict d) ''impliedApy'' = Inr (implied_apy v)"
       "float_field rt (PyDict d) ''underlyingApy'' = Inr (underlying_apy v)"
       "float_field rt (PyDict d) ''lpApy'' = Inr (lp_apy v)"
       "float_field rt (PyDict d) ''ptPrice'' = Inr (pt_price v)"
       "float_field rt (PyDict d) ''ytPrice'' = Inr (yt_price v)"
    by auto
  { assume "map_of d ''volume24h'' = None"
    from float_field_absent[OF this zero] f(1) show "volume_24h v = zero" by simp }
  { assume "map_of d ''liquidity'' = None"
    from float_field_absent[OF this zero] f(2) show "liquidity v = zero" by simp }
  { assume "map_of d ''impliedApy'' = None"
    from float_field_absent[OF this zero] f(3) show "implied_apy v = zero" by simp }
  { assume "map_of d ''underlyingApy'' = None"
    from float_field_absent[OF this zero] f(4) show "underlying_apy v = zero" by simp }
  { assume "map_of d ''lpApy'' = None"
    from float_field_absent[OF this zero] f(5) show "lp_apy v = zero" by simp }
  { assume "map_of d ''ptPrice'' = None"
    from float_field_absent[OF this zero] f(6) show "pt_price v = zero" by simp }
  { assume "map_of d ''ytPrice'' = None"
    from float_field_absent[OF this zero] f(7) show "yt_price v = zero" by simp }
next
  assume a: "py_get market' ''details'' (PyDict []) = Inr (PyDict d')
      \<and> key \<in> set [''volume24h'', ''liquidity'', ''impliedApy'', ''underlyingApy'',
                     ''lpApy'', ''ptPrice'', ''ytPrice'']
      \<and> map_of d' key = Some x \<and> py_float rt x = Inl e"
  then have ff: "float_field rt (PyDict d') key = Inl e"
    by (simp add: float_field_present)
  show "\<exists>e'. vault_of_market rt cid market' = Inl e'"
  proof (cases "vault_of_market rt cid market'")
    case (Inl e')
    then show ?thesis by blast
  next
    case (Inr w)
    from vault_of_market_fields[OF Inr] a
    have "\<exists>f. float_field rt (PyDict d') key = Inr f" by auto
    with ff show ?thesis by simp
  qed
next
  assume a: "vault_of_market rt cid bad = Inl exc \<and> caught_per_record exc
      \<and> map_of p ''markets'' = Some (PyList (xs @ bad # ys))
      \<and> map_of p' ''markets'' = Some (PyList (xs @ ys))"
  then have "vaults_loop rt cid (xs @ bad # ys) [] = vaults_loop rt cid (xs @ ys) []"
    by (simp add: vaults_loop_drop)
  with a show "get_pendle_vaults rt (Inr (PyDict p)) cid = get_pendle_vaults rt (Inr (PyDict p')) cid"
    by (simp add: get_pendle_vaults_markets)
qed

text \<open>
  The well-formed example omits six metrics, which are 0.0 in its vault; the market of
  the spec's scenario raises, and the listing of both is the listing of the first alone.
\<close>

theorem numeric_fields_default_or_record_dropped_witness:
  "float_of_int example_runtime 0 = Some 0
   \<and> vault_of_market example_runtime 1 market_ok = Inr vault_ok
   \<and> volume_24h vault_ok = 0 \<and> implied_apy vault_ok = 0 \<and> underlying_apy vault_ok = 0
   \<and> lp_apy vault_ok = 0 \<and> pt_price vault_ok = 0 \<and> yt_price vault_ok = 0
   \<and> (\<exists>e'. vault_of_market example_runtime 1 market_bad_liquidity = Inl e')
   \<and> get_pendle_vaults example_runtime
         (Inr (PyDict [(''markets'', PyList [market_ok, market_bad_liquidity])])) 1
       = get_pendle_vaults example_runtime (Inr (PyDict [(''markets'', PyList [market_ok])])) 1"
  using numeric_fields_default_or_record_dropped [where rt = example_runtime and zero = 0
      and cid = 1 and market = market_ok and v = vault_ok
      and d = "[(''liquidity'', PyInt 1000)]"
      and market' = market_bad_liquidity and d' = "[(''liquidity'', PyStr ''not-a-number'')]"
      and key = "''liquidity''" and x = "PyStr ''not-a-number''"
      and e = "PyError ValueError (''could not convert string to float: '' @ quoted ''not-a-number'')"
      and bad = market_bad_liquidity
      and exc = "PyError ValueError (''could not convert string to float: '' @ quoted ''not-a-number'')"
      and p = "[(''markets'', PyList [market_ok, market_bad_liquidity])]"
      and p' = "[(''markets'', PyList [market_ok])]" and xs = "[market_ok]" and ys = "[]"]
  by (simp add: vaults_eval examples_eval)

text \<open>
  Against C7 as stated (a metric that cannot be coerced defaults to 0.0): the only
  market has a \<^verbatim>\<open>liquidity\<close> that cannot be coerced, and the listing holds no vault for
  it, with or without a default.
\<close>

theorem uncoercible_field_is_not_defaulted:
  "get_pendle_vaults example_runtime
     (Inr (PyDict [(''markets'', PyList [market_bad_liquidity])])) 1
   = Inr \<lparr>VaultsResponse.success = True, vaults = [], total = 0, error = None\<rparr>"
  by (simp add: vaults_eval examples_eval)

lemma py_get_not_dict:
  "(\<forall>d. data \<noteq> PyDict d) \<Longrightarrow>
   py_get data key dflt
     = Inl (PyError AttributeError
              (quoted (type_name data) @ '' object has no attribute '' @ quoted ''get''))"
  by (cases data) (simp_all add: py_get_def)

lemma py_iter_error:
  "py_iter ms = Inl e \<Longrightarrow>
   e = PyError TypeError (quoted (type_name ms) @ '' object is not iterable'')"
  by (cases ms) (simp_all add: py_iter_def)

text \<open>
  C5, as the code has it. When the HTTP call raises an \<^verbatim>\<open>httpx.HTTPError\<close> (timeout,
  connection error, status outside 2xx), the handler returns \<^verbatim>\<open>success == false\<close>, no
  vaults, \<^verbatim>\<open>total == 0\<close> and the non-empty error \<^verbatim>\<open>Failed to fetch vaults: \<close> followed
  by the fault's text (conjuncts 1 and 2). Other failures abort the whole result as well,
  with the exception's text as the error: an exception of any other class under the
  request, such as a body that is not JSON (conjunct 3); a payload that is not an object,
  be it a list, a string, a number, a boolean or \<^verbatim>\<open>null\<close> (conjunct 4); and a
  \<^verbatim>\<open>markets\<close> value that cannot be iterated (conjunct 5). No record-level exception
  escapes the handler: when the coercion of a market raises, the handler returns a
  response, and when the exception is of a class the per-record handler catches, it is the
  response to the payload without that market (conjunct 6).
\<close>

theorem transport_fault_aborts_listing:
  "get_pendle_vaults rt (Inl (PyError HTTPError m)) cid
     = Inr \<lparr>VaultsResponse.success = False, vaults = [], total = 0,
            error = Some (''Failed to fetch vaults: '' @ m)\<rparr>
   \<and> ''Failed to fetch vaults: '' @ m \<noteq> []
   \<and> get_pendle_vaults rt (Inl (PyError c m')) cid
     = Inr \<lparr>VaultsResponse.success = False, vaults = [], total = 0,
            error = Some (if c = HTTPError then ''Failed to fetch vaults: '' @ m' else m')\<rparr>
   \<and> ((\<forall>d. data \<noteq> PyDict d) \<longrightarrow>
        get_pendle_vaults rt (Inr data) cid
        = Inr \<lparr>VaultsResponse.success = False, vaults = [], total = 0,
               error = Some (quoted (type_name data) @ '' object has no attribute ''
                             @ quoted ''get'')\<rparr>)
   \<and> (map_of p ''markets'' = Some ms \<and> py_iter ms = Inl e \<longrightarrow>
        get_pendle_vaults rt (Inr (PyDict p)) cid
        = Inr \<lparr>VaultsResponse.success = False, vaults = [], total = 0,
               error = Some (quoted (type_name ms) @ '' object is not iterable'')\<rparr>)
   \<and> (map_of q ''markets'' = Some (PyList (xs @ bad # ys))
        \<and> vault_of_market rt cid bad = Inl exc \<longrightarrow>
        (\<exists>r. get_pendle_vaults rt (Inr (PyDict q)) cid = Inr r)
        \<and> (caught_per_record exc \<and> map_of q' ''markets'' = Some (PyList (xs @ ys)) \<longrightarrow>
             get_pendle_vaults rt (Inr (PyDict q)) cid
             = get_pendle_vaults rt (Inr (PyDict q')) cid))"
proof (intro conjI impI)
  show "get_pendle_vaults rt (Inl (PyError HTTPError m)) cid
     = Inr \<lparr>VaultsResponse.success = False, vaults = [], total = 0,
            error = Some (''Failed to fetch vaults: '' @ m)\<rparr>"
    by (simp add: get_pendle_vaults_def vaults_body_def try_bind_def)
  show "''Failed to fetch vaults: '' @ m \<noteq> []" by simp
  show "get_pendle_vaults rt (Inl (PyError c m')) cid
     = Inr \<lparr>VaultsResponse.success = False, vaults = [], total = 0,
            error = Some (if c = HTTPError then ''Failed to fetch vaults: '' @ m' else m')\<rparr>"
    by (simp add: get_pendle_vaults_def vaults_body_def try_bind_def)
next
  assume "\<forall>d. data \<noteq> PyDict d"
  then show "get_pendle_vaults rt (Inr data) cid
        = Inr \<lparr>VaultsResponse.success = False, vaults = [], total = 0,
               error = Some (quoted (type_name data) @ '' object has no attribute ''
                             @ quoted ''get'')\<rparr>"
    by (simp add: get_pendle_vaults_def vaults_body_def try_bind_def py_get_not_dict)
next
  assume a: "map_of p ''markets'' = Some ms \<and> py_iter ms = Inl e"
  then have "e = PyError TypeError (quoted (type_name ms) @ '' object is not iterable'')"
    by (simp add: py_iter_error)
  with a show "get_pendle_vaults rt (Inr (PyDict p)) cid
        = Inr \<lparr>VaultsResponse.success = False, vaults = [], total = 0,
               error = Some (quoted (type_name ms) @ '' object is not iterable'')\<rparr>"
    by (simp add: get_pendle_vaults_def vaults_body_def try_bind_def py_get_def)
next
  show "\<exists>r. get_pendle_vaults rt (Inr (PyDict q)) cid = Inr r"
    by (simp add: get_pendle_vaults_def split: sum.splits)
next
  assume a: "map_of q ''markets'' = Some (PyList (xs @ bad # ys))
        \<and> vault_of_market rt cid bad = Inl exc"
    and b: "caught_per_record exc \<and> map_of q' ''markets'' = Some (PyList (xs @ ys))"
  then have "vaults_loop rt cid (xs @ bad # ys) [] = vaults_loop rt cid (xs @ ys) []"
    by (simp add: vaults_loop_drop)
  with a b show "get_pendle_vaults rt (Inr (PyDict q)) cid
             = get_pendle_vaults rt (Inr (PyDict q')) cid"
    by (simp add: get_pendle_vaults_markets)
qed

text \<open>
  The payload \<^verbatim>\<open>null\<close>; a payload whose \<^verbatim>\<open>markets\<close> is the number 5; and the two
  markets of the spec's scenario, of which the second raises in its coercion.
\<close>

theorem transport_fault_aborts_listing_witness:
  "get_pendle_vaults example_runtime (Inr PyNone) 1
     = Inr \<lparr>VaultsResponse.success = False, vaults = [], total = 0,
            error = Some (quoted ''NoneType'' @ '' object has no attribute '' @ quoted ''get'')\<rparr>
   \<and> get_pendle_vaults example_runtime (Inr (PyDict [(''markets'', PyInt 5)])) 1
     = Inr \<lparr>VaultsResponse.success = False, vaults = [], total = 0,
            error = Some (quoted ''int'' @ '' object is not iterable'')\<rparr>
   \<and> get_pendle_vaults example_runtime
       (Inr (PyDict [(''markets'', PyList [market_ok, market_bad_liquidity])])) 1
     = Inr \<lparr>VaultsResponse.success = True, vaults = [vault_ok], total = 1, error = None\<rparr>
   \<and> get_pendle_vaults example_runtime
       (Inr (PyDict [(''markets'', PyList [market_ok, market_bad_liquidity])])) 1
     = get_pendle_vaults example_runtime (Inr (PyDict [(''markets'', PyList [market_ok])])) 1"
  using transport_fault_aborts_listing [where rt = example_runtime and cid = 1
      and data = PyNone and p = "[(''markets'', PyInt 5)]" and ms = "PyInt 5"
      and e = "PyError TypeError (quoted ''int'' @ '' object is not iterable'')"
      and q = "[(''markets'', PyList [market_ok, market_bad_liquidity])]"
      and xs = "[market_ok]" and bad = market_bad_liquidity and ys = "[]"
      and exc = "PyError ValueError (''could not convert string to float: '' @ quoted ''not-a-number'')"
      and q' = "[(''markets'', PyList [market_ok])]"]
  by (simp add: vaults_eval examples_eval)

text \<open>
  Against C5 as stated (a transport fault is the only failure that aborts the result
  set): the provider answers 200 with the JSON array \<^verbatim>\<open>[]\<close>, or with a body that
  \<^verbatim>\<open>response.json()\<close> rejects, and the handler returns the failure response.
\<close>

theorem transport_fault_not_the_only_abort:
  "get_pendle_vaults example_runtime (Inr (PyList [])) 1
     = Inr \<lparr>VaultsResponse.success = False, vaults = [], total = 0,
            error = Some (quoted ''list'' @ '' object has no attribute '' @ quoted ''get'')\<rparr>
   \<and> get_pendle_vaults example_runtime
       (Inl (PyError ValueError ''Expecting value: line 1 column 1 (char 0)'')) 1
     = Inr \<lparr>VaultsResponse.success = False, vaults = [], total = 0,
            error = Some ''Expecting value: line 1 column 1 (char 0)''\<rparr>"
  by (simp add: vaults_eval)

section \<open>Properties of the agent registry\<close>

lemmas agents_eval =
  get_or_create_agent_def get_agent_cache_def create_agent_def lifespan_state_def
  stub_api_def update_agent_def chat_with_agent_def chat_except_def
  search_and_summarize_def search_except_def search_result_def search_prompt_def
  sources_value_def dict_get_def truthy_def py_int_def quoted_def example_runtime_def
  hello_result_def partial_failure_def unexplained_failure_def counted_result_def Let_def

lemma map_of_recognized:
  "list_all (\<lambda>kv. fst kv = ''search'' \<or> fst kv = ''chat'') cache \<Longrightarrow>
   k \<noteq> ''chat'' \<Longrightarrow> k \<noteq> ''search'' \<Longrightarrow> map_of cache k = None"
  by (induction cache) auto

lemma lifespan_state_recognized: "cache_recognized (lifespan_state cfg)"
  by (simp add: cache_recognized_def lifespan_state_def get_agent_cache_def)

lemma get_or_create_agent_recognized:
  "cache_recognized s \<Longrightarrow> get_or_create_agent api s ty = (r, s') \<Longrightarrow> cache_recognized s'"
  by (auto simp: cache_recognized_def get_or_create_agent_def get_agent_cache_def
      create_agent_def Let_def split: option.splits sum.splits if_splits)

lemma get_or_create_agent_config:
  "get_or_create_agent api s ty = (r, s') \<Longrightarrow> agent_config s' = agent_config s"
  by (auto simp: get_or_create_agent_def get_agent_cache_def create_agent_def Let_def
      split: option.splits sum.splits if_splits)

lemma update_agent_recognized:
  "cache_recognized s \<Longrightarrow> cache_recognized (update_agent s ag a')"
  by (auto simp: cache_recognized_def update_agent_def get_agent_cache_def list_all_iff
      split: option.splits)

lemma update_agent_config: "agent_config (update_agent s ag a') = agent_config s"
  by (simp add: update_agent_def)

lemma chat_with_agent_recognized:
  assumes "cache_recognized s" and "chat_with_agent api s req = (r, s')"
  shows "cache_recognized s'"
proof (cases "get_or_create_agent api s (ChatRequest.agent_type req)")
  case (Pair g s1)
  with assms(1) have s1: "cache_recognized s1"
    by (auto dest: get_or_create_agent_recognized)
  show ?thesis
  proof (cases g)
    case (Inl e)
    with Pair assms(2) s1 show ?thesis by (simp add: chat_with_agent_def)
  next
    case (Inr ag)
    obtain outcome a' where "execute api (internal ag) (message req) None = (outcome, a')"
      by (cases "execute api (internal ag) (message req) None")
    with Pair Inr assms(2) have "s' = update_agent s1 ag a'"
      by (auto simp: chat_with_agent_def Let_def split: sum.splits)
    with s1 show ?thesis by (simp add: update_agent_recognized)
  qed
qed

lemma search_and_summarize_recognized:
  assumes "cache_recognized s" and "search_and_summarize rt api s req = (r, s')"
  shows "cache_recognized s'"
proof (cases "get_or_create_agent api s ''search''")
  case (Pair g s1)
  with assms(1) have s1: "cache_recognized s1"
    by (auto dest: get_or_create_agent_recognized)
  show ?thesis
  proof (cases g)
    case (Inl e)
    with Pair assms(2) s1 show ?thesis by (simp add: search_and_summarize_def)
  next
    case (Inr ag)
    obtain outcome a' where
      "execute api (internal ag) (search_prompt req) (Some True) = (outcome, a')"
      by (cases "execute api (internal ag) (search_prompt req) (Some True)")
    with Pair Inr assms(2) have "s' = update_agent s1 ag a'"
      by (auto simp: search_and_summarize_def Let_def split: sum.splits)
    with s1 show ?thesis by (simp add: update_agent_recognized)
  qed
qed

lemma get_or_create_agent_cached:
  "map_of (fst (get_agent_cache s)) ty = Some cached \<Longrightarrow>
   get_or_create_agent api s ty = (Inr cached, snd (get_agent_cache s))"
  by (cases "get_agent_cache s") (simp add: get_or_create_agent_def)

lemma get_agent_cache_constructed: "constructed (snd (get_agent_cache s)) = constructed s"
  by (simp add: get_agent_cache_def split: option.splits)

lemma get_or_create_agent_created:
  assumes "ty = ''chat'' \<or> ty = ''search''"
    and "map_of (fst (get_agent_cache s)) ty = None"
    and "agent_config s = Some cfg"
    and "new_agent api (if ty = ''search'' then SearchAgent else ChatAgent) cfg = Inr a"
  shows "get_or_create_agent api s ty
     = (Inr \<lparr>ident = length (constructed s), internal = a\<rparr>,
        s\<lparr>constructed := constructed s
              @ [(if ty = ''search'' then SearchAgent else ChatAgent, cfg)],
          agent_cache := Some (fst (get_agent_cache s)
              @ [(ty, \<lparr>ident = length (constructed s), internal = a\<rparr>)])\<rparr>)"
  using assms
  by (auto simp: get_or_create_agent_def get_agent_cache_def create_agent_def Let_def
      split: option.splits)

lemma get_or_create_agent_again:
  "get_or_create_agent api s ty = (Inr ag, s1) \<Longrightarrow>
   get_or_create_agent api s1 ty = (Inr ag, s1)"
  by (auto simp: get_or_create_agent_def get_agent_cache_def create_agent_def Let_def
      split: option.splits sum.splits if_splits)

lemma get_or_create_many_fixed:
  "get_or_create_agent api s1 ty = (Inr ag, s1) \<Longrightarrow>
   get_or_create_many api s1 ty n = (replicate n (Inr ag), s1)"
  by (induction n) simp_all

text \<open>
  C1. For a recognized type, in a state in which the type is cached or else the
  configuration is set and the constructor of the type returns: the first of \<open>n + 1\<close>
  calls in sequence returns an agent, every call returns this same agent (same identity,
  same internal state), and the calls after the first change nothing in the state, so no
  agent is constructed again and the configuration is not applied again. When the type
  was not cached, the agent is the new object and the constructor has run exactly once,
  in the first call, with the configuration; when it was cached, the agent is the cached
  one and the constructor has not run.
\<close>

theorem get_or_create_returns_same_agent:
  assumes ty: "ty = ''chat'' \<or> ty = ''search''"
    and ctor: "map_of (fst (get_agent_cache s)) ty = None \<Longrightarrow>
       agent_config s = Some cfg
       \<and> new_agent api (if ty = ''search'' then SearchAgent else ChatAgent) cfg = Inr a"
  shows "\<exists>ag s1. get_or_create_agent api s ty = (Inr ag, s1)
     \<and> get_or_create_many api s ty (Suc n) = (replicate (Suc n) (Inr ag), s1)
     \<and> get_or_create_many api s1 ty n = (replicate n (Inr ag), s1)
     \<and> (case map_of (fst (get_agent_cache s)) ty of
          Some cached \<Rightarrow> ag = cached \<and> constructed s1 = constructed s
        | None \<Rightarrow>
            ag = \<lparr>ident = length (constructed s), internal = a\<rparr>
            \<and> constructed s1 = constructed s
                 @ [(if ty = ''search'' then SearchAgent else ChatAgent, cfg)])"
proof -
  obtain ag s1 where first: "get_or_create_agent api s ty = (Inr ag, s1)"
    and log: "case map_of (fst (get_agent_cache s)) ty of
          Some cached \<Rightarrow> ag = cached \<and> constructed s1 = constructed s
        | None \<Rightarrow>
            ag = \<lparr>ident = length (constructed s), internal = a\<rparr>
            \<and> constructed s1 = constructed s
                 @ [(if ty = ''search'' then SearchAgent else ChatAgent, cfg)]"
  proof (cases "map_of (fst (get_agent_cache s)) ty")
    case None
    with ctor have c: "agent_config s = Some cfg"
      "new_agent api (if ty = ''search'' then SearchAgent else ChatAgent) cfg = Inr a"
      by simp_all
    show ?thesis
      by (rule that[OF get_or_create_agent_created[OF ty None c]]) (simp add: None)
  next
    case (Some cached)
    show ?thesis
      by (rule that[OF get_or_create_agent_cached[OF Some]])
         (simp add: Some get_agent_cache_constructed)
  qed
  from first have again: "get_or_create_agent api s1 ty = (Inr ag, s1)"
    by (rule get_or_create_agent_again)
  then have rest: "get_or_create_many api s1 ty n = (replicate n (Inr ag), s1)"
    by (rule get_or_create_many_fixed)
  with first have "get_or_create_many api s ty (Suc n) = (replicate (Suc n) (Inr ag), s1)"
    by simp
  with first rest log show ?thesis by blast
qed

text \<open>
  Three calls for \<^verbatim>\<open>"search"\<close> in the state after a chat request, with the stub
  agent: one construction, the second of the process, and three times the object 1.
\<close>

theorem get_or_create_returns_same_agent_witness:
  "get_or_create_many (stub_api (Inr hello_result) [''search''])
     \<lparr>agent_cache = Some [(''chat'', \<lparr>ident = 0, internal = 0\<rparr>)],
      agent_config = Some ''cfg'', constructed = [(ChatAgent, ''cfg'')]\<rparr>
     ''search'' (Suc (Suc (Suc 0)))
   = (replicate (Suc (Suc (Suc 0))) (Inr \<lparr>ident = Suc 0, internal = 0\<rparr>),
      \<lparr>agent_cache = Some [(''chat'', \<lparr>ident = 0, internal = 0\<rparr>),
                           (''search'', \<lparr>ident = Suc 0, internal = 0\<rparr>)],
       agent_config = Some ''cfg'',
       constructed = [(ChatAgent, ''cfg''), (SearchAgent, ''cfg'')]\<rparr>)"
  using get_or_create_returns_same_agent [of "''search''"
      "\<lparr>agent_cache = Some [(''chat'', \<lparr>ident = 0, internal = 0\<rparr>)],
        agent_config = Some ''cfg'', constructed = [(ChatAgent, ''cfg'')]\<rparr>"
      "''cfg''" "stub_api (Inr hello_result) [''search'']" 0 "Suc (Suc 0)"]
  by (auto simp: agents_eval)

text \<open>
  C6. For a type other than \<^verbatim>\<open>"chat"\<close> and \<^verbatim>\<open>"search"\<close>, in a state whose cache holds
  recognized types only and whose configuration is set (as \<^verbatim>\<open>lifespan\<close> leaves it and
  the handlers keep it), \<^verbatim>\<open>_get_or_create_agent\<close> raises \<^verbatim>\<open>HTTPException\<close> with status
  400 and a detail that names the type; no constructor is called and the cache holds what
  it held. The state is the same, but for the attribute \<^verbatim>\<open>agent_cache\<close> being set to the
  empty dict when it was not set.
\<close>

theorem unknown_agent_type_rejected:
  assumes "ty \<noteq> ''chat''" and "ty \<noteq> ''search''" and "cache_recognized s"
    and "agent_config s = Some cfg"
  shows "\<exists>s'. get_or_create_agent api s ty
           = (Inl (HTTPException 400 (''Unknown agent type '' @ quoted ty)), s')
       \<and> fst (get_agent_cache s') = fst (get_agent_cache s)
       \<and> constructed s' = constructed s
       \<and> agent_config s' = agent_config s
       \<and> (if agent_cache s = None then s' = s\<lparr>agent_cache := Some []\<rparr> else s' = s)"
proof -
  from assms have "map_of (fst (get_agent_cache s)) ty = None"
    unfolding cache_recognized_def by (rule_tac map_of_recognized)
  with assms(1,2,4) show ?thesis
    by (auto simp: get_or_create_agent_def get_agent_cache_def split: option.splits)
qed

text \<open>
  The spec's scenario: the type \<^verbatim>\<open>"bogus"\<close> after start-up.
\<close>

theorem unknown_agent_type_rejected_witness:
  "get_or_create_agent (stub_api (Inr hello_result) [''chat'']) (lifespan_state ''cfg'') ''bogus''
   = (Inl (HTTPException 400 (''Unknown agent type '' @ quoted ''bogus'')), lifespan_state ''cfg'')
   \<and> cache_recognized (lifespan_state ''cfg'' :: (nat, string) app_state)
   \<and> agent_config (lifespan_state ''cfg'' :: (nat, string) app_state) = Some ''cfg''"
  using unknown_agent_type_rejected [of "''bogus''" "lifespan_state ''cfg''" "''cfg''"
      "stub_api (Inr hello_result) [''chat'']"]
  by (simp add: agents_eval cache_recognized_def)

text \<open>
  Before \<^verbatim>\<open>lifespan\<close> has set the configuration, the read at line 109 raises for every
  type that is not cached, recognized or not.
\<close>

lemma agent_config_unset:
  "agent_config s = None \<Longrightarrow> map_of (fst (get_agent_cache s)) ty = None \<Longrightarrow>
   get_or_create_agent api s ty
     = (Inl (Raised (PyError AttributeError
               (quoted ''State'' @ '' object has no attribute '' @ quoted ''agent_config''))),
        snd (get_agent_cache s))"
  by (auto simp: get_or_create_agent_def get_agent_cache_def split: option.splits)

theorem bogus_chat_request_is_client_error:
  "fst (chat_with_agent (stub_api (Inr hello_result) [''chat'']) (lifespan_state ''cfg'')
          \<lparr>message = ''x'', agent_type = ''bogus'', request_context = None\<rparr>)
   = Inl (HTTPException 400 (''Unknown agent type '' @ quoted ''bogus''))"
  by (simp add: agents_eval)

section \<open>Properties of the chat and search endpoints\<close>

text \<open>
  C4, as the code has it. When the agent is resolved and \<^verbatim>\<open>execute\<close> raises an exception
  of any class but \<^verbatim>\<open>HTTPException\<close>, the chat handler returns a response:
  \<^verbatim>\<open>success == false\<close>, empty \<^verbatim>\<open>response\<close>, no capabilities, and the exception's text
  as \<^verbatim>\<open>error\<close>.
\<close>

theorem chat_fault_becomes_response:
  assumes "get_or_create_agent api s (ChatRequest.agent_type req) = (Inr ag, s1)"
    and "execute api (internal ag) (message req) None = (Inl (Raised exc), a')"
  shows "chat_with_agent api s req
     = (Inr \<lparr>ChatResponse.success = False, response = [],
             agent_type = ChatRequest.agent_type req, capabilities = [], metadata = [],
             error = Some (str_exc exc)\<rparr>,
        update_agent s1 ag a')"
  using assms by (simp add: chat_with_agent_def chat_except_def)

text \<open>
  The stub agent's \<^verbatim>\<open>execute\<close> raises with the text \<^verbatim>\<open>connection reset\<close>.
\<close>

theorem chat_fault_becomes_response_witness:
  "chat_with_agent (stub_api (Inl (Raised (PyError OtherError ''connection reset''))) [''chat''])
     (lifespan_state ''cfg'')
     \<lparr>message = ''hi'', agent_type = ''chat'', request_context = None\<rparr>
   = (Inr \<lparr>ChatResponse.success = False, response = [], agent_type = ''chat'',
           capabilities = [], metadata = ([] :: (string \<times> int pyval) list),
           error = Some ''connection reset''\<rparr>,
      \<lparr>agent_cache = Some [(''chat'', \<lparr>ident = 0, internal = Suc 0\<rparr>)], agent_config = Some ''cfg'',
       constructed = [(ChatAgent, ''cfg'')]\<rparr>)"
  using chat_fault_becomes_response [of
      "stub_api (Inl (Raised (PyError OtherError ''connection reset''))) [''chat'']"
      "lifespan_state ''cfg''"
      "\<lparr>message = ''hi'', agent_type = ''chat'', request_context = None\<rparr>"
      "\<lparr>ident = 0, internal = 0\<rparr>"
      "\<lparr>agent_cache = Some [(''chat'', \<lparr>ident = 0, internal = 0\<rparr>)], agent_config = Some ''cfg'',
        constructed = [(ChatAgent, ''cfg'')]\<rparr>"
      "PyError OtherError ''connection reset''" "Suc 0"]
  by (simp add: agents_eval)

text \<open>
  Against C4 as stated (every fault other than the client error for an unknown agent
  type becomes a response): \<^verbatim>\<open>execute\<close> raises an \<^verbatim>\<open>HTTPException\<close> with status 503,
  which \<^verbatim>\<open>except HTTPException: raise\<close> lets through.
\<close>

theorem execute_http_exception_is_raised_again:
  "fst (chat_with_agent (stub_api (Inl (HTTPException 503 ''upstream unavailable'')) [''chat''])
          (lifespan_state ''cfg'')
          \<lparr>message = ''hi'', agent_type = ''chat'',
           request_context = (None :: (string \<times> int pyval) list option)\<rparr>)
   = (Inl (HTTPException 503 ''upstream unavailable'') :: exn + int ChatResponse)"
  by (simp add: agents_eval)

text \<open>
  C9. Two search requests with the same query and different \<^verbatim>\<open>max_results\<close>, handled
  in the same state with the same collaborators, give the same outcome, response and
  state, and the same prompt is sent to the agent: \<^verbatim>\<open>max_results\<close> is never read.
\<close>

theorem max_results_has_no_effect:
  "search_and_summarize rt api s \<lparr>SearchRequest.query = q, max_results = m1\<rparr>
     = search_and_summarize rt api s \<lparr>SearchRequest.query = q, max_results = m2\<rparr>
   \<and> search_prompt \<lparr>SearchRequest.query = q, max_results = m1\<rparr>
     = search_prompt \<lparr>SearchRequest.query = q, max_results = m2\<rparr>"
proof -
  have p: "search_prompt \<lparr>SearchRequest.query = q, max_results = m1\<rparr>
      = search_prompt \<lparr>SearchRequest.query = q, max_results = m2\<rparr>"
    by (simp add: search_prompt_def)
  have e: "(search_except \<lparr>SearchRequest.query = q, max_results = m1\<rparr> :: exn \<Rightarrow> exn + 'f SearchResponse)
      = search_except \<lparr>SearchRequest.query = q, max_results = m2\<rparr>"
    by (simp add: search_except_def fun_eq_iff split: exn.splits)
  have r: "search_result rt \<lparr>SearchRequest.query = q, max_results = m1\<rparr>
      = search_result rt \<lparr>SearchRequest.query = q, max_results = m2\<rparr>"
    by (simp add: search_result_def fun_eq_iff e split: sum.splits)
  show ?thesis
    by (simp only: search_and_summarize_def p e r)
qed

lemma sources_value_first_present:
  "sources_value rt md =
     (case first_present md of
        None \<Rightarrow> PyInt 0
      | Some v \<Rightarrow> if truthy rt v then v else PyInt 0)"
  by (simp add: sources_value_def first_present_def dict_get_def truthy_def Let_def
      split: option.splits)

lemma py_int_PyInt: "py_int rt (PyInt n) = Inr n"
  by (simp add: py_int_def)

lemma truthy_PyInt: "truthy rt (PyInt n) = (n \<noteq> 0)"
  by (simp add: truthy_def)

lemma search_and_summarize_result:
  assumes "get_or_create_agent api s ''search'' = (Inr ag, s1)"
    and "execute api (internal ag) (search_prompt req) (Some True) = (Inr res, a')"
  shows "search_and_summarize rt api s req = (search_result rt req res, update_agent s1 ag a')"
  using assms by (simp add: search_and_summarize_def)

text \<open>
  C3, as the code has it. On a structured success the handler applies \<^verbatim>\<open>int\<close> to the
  first present of \<^verbatim>\<open>metadata["tool_run_count"]\<close> and \<^verbatim>\<open>metadata["tools_used"]\<close>, or to
  0 when that value is falsy or neither key is present. So: neither key present gives
  \<^verbatim>\<open>sources_count == 0\<close>; an integer gives itself, a negative one included; a falsy
  value gives 0; a truthy value that \<^verbatim>\<open>int\<close> converts gives the converted number; and
  for a truthy value that \<^verbatim>\<open>int\<close> rejects the handler returns the failure response:
  \<^verbatim>\<open>success == false\<close>, \<^verbatim>\<open>sources_count == 0\<close> and the exception's text as
  \<^verbatim>\<open>error\<close>.
\<close>

theorem sources_count_first_present:
  assumes "get_or_create_agent api s ''search'' = (Inr ag, s1)"
    and "execute api (internal ag) (search_prompt req) (Some True) = (Inr res, a')"
    and "AgentResult.success res"
  shows
    "(let out = fst (search_and_summarize rt api s req);
          found = (\<lambda>n. Inr \<lparr>SearchResponse.success = True, query = SearchRequest.query req,
                              summary = content res,
                              search_results = Some (AgentResult.metadata res),
                              sources_count = n, error = None\<rparr>)
      in (first_present (AgentResult.metadata res) = None \<longrightarrow> out = found 0)
       \<and> (first_present (AgentResult.metadata res) = Some (PyInt n) \<longrightarrow> out = found n)
       \<and> (first_present (AgentResult.metadata res) = Some v \<and> \<not> truthy rt v \<longrightarrow> out = found 0)
       \<and> (first_present (AgentResult.metadata res) = Some v \<and> truthy rt v
             \<and> py_int rt v = Inr k \<longrightarrow> out = found k)
       \<and> (first_present (AgentResult.metadata res) = Some v \<and> truthy rt v
             \<and> py_int rt v = Inl exc \<longrightarrow>
           out = Inr \<lparr>SearchResponse.success = False, query = SearchRequest.query req,
                      summary = [], search_results = None, sources_count = 0,
                      error = Some (str_exc exc)\<rparr>))"
proof -
  have out: "fst (search_and_summarize rt api s req) =
      (case py_int rt (case first_present (AgentResult.metadata res) of
                         None \<Rightarrow> PyInt 0
                       | Some v \<Rightarrow> if truthy rt v then v else PyInt 0) of
         Inl exc \<Rightarrow> search_except req (Raised exc)
       | Inr n \<Rightarrow> Inr \<lparr>SearchResponse.success = True, query = SearchRequest.query req,
                        summary = content res,
                        search_results = Some (AgentResult.metadata res),
                        sources_count = n, error = None\<rparr>)"
    using assms(3)
    by (simp add: search_and_summarize_result[OF assms(1,2)] search_result_def
        sources_value_first_present)
  show ?thesis
    unfolding Let_def out
    by (intro conjI impI)
       (auto simp: py_int_PyInt truthy_PyInt search_except_def)
qed

text \<open>
  Both keys are present: \<^verbatim>\<open>tool_run_count\<close> wins over \<^verbatim>\<open>tools_used\<close>.
\<close>

theorem sources_count_first_present_witness:
  "fst (search_and_summarize example_runtime
          (stub_api (Inr (counted_result [(''tools_used'', PyInt 7), (''tool_run_count'', PyInt 2)]))
             [''search''])
          (lifespan_state ''cfg'') \<lparr>SearchRequest.query = ''pendle'', max_results = 5\<rparr>)
   = Inr \<lparr>SearchResponse.success = True, query = ''pendle'', summary = ''summary'',
          search_results = Some [(''tools_used'', PyInt 7), (''tool_run_count'', PyInt 2)],
          sources_count = 2, error = None\<rparr>
   \<and> first_present [(''tools_used'', PyInt 7 :: int pyval), (''tool_run_count'', PyInt 2)]
     = Some (PyInt 2)"
  using sources_count_first_present [of
      "stub_api (Inr (counted_result [(''tools_used'', PyInt 7), (''tool_run_count'', PyInt 2)]))
         [''search'']"
      "lifespan_state ''cfg''" "\<lparr>ident = 0, internal = 0\<rparr>"
      "\<lparr>agent_cache = Some [(''search'', \<lparr>ident = 0, internal = 0\<rparr>)], agent_config = Some ''cfg'',
        constructed = [(SearchAgent, ''cfg'')]\<rparr>"
      "\<lparr>SearchRequest.query = ''pendle'', max_results = 5\<rparr>"
      "counted_result [(''tools_used'', PyInt 7), (''tool_run_count'', PyInt 2)]" "Suc 0"
      example_runtime 2]
  by (simp add: agents_eval first_present_def)

text \<open>
  Against C3 as stated (a negative or non-numeric value gives \<^verbatim>\<open>sources_count == 0\<close>
  with \<^verbatim>\<open>success == true\<close>): \<open>-3\<close> stays \<open>-3\<close>, and for the text \<^verbatim>\<open>n/a\<close> the
  handler returns \<^verbatim>\<open>success == false\<close>.
\<close>

theorem negative_and_non_numeric_sources_count:
  "fst (search_and_summarize example_runtime
          (stub_api (Inr (counted_result [(''tool_run_count'', PyInt (- 3))])) [''search''])
          (lifespan_state ''cfg'') \<lparr>SearchRequest.query = ''pendle'', max_results = 5\<rparr>)
   = Inr \<lparr>SearchResponse.success = True, query = ''pendle'', summary = ''summary'',
          search_results = Some [(''tool_run_count'', PyInt (- 3))],
          sources_count = - 3, error = None\<rparr>
   \<and> fst (search_and_summarize example_runtime
          (stub_api (Inr (counted_result [(''tool_run_count'', PyStr ''n/a'')])) [''search''])
          (lifespan_state ''cfg'') \<lparr>SearchRequest.query = ''pendle'', max_results = 5\<rparr>)
   = Inr \<lparr>SearchResponse.success = False, query = ''pendle'', summary = [],
          search_results = None, sources_count = 0,
          error = Some (''invalid literal for int() with base 10: '' @ quoted ''n/a'')\<rparr>"
  by (simp add: agents_eval)






end
